theory Spec2Isabelle
  imports Main "HOL-Library.Multiset"
begin

section \<open>The store\<close>

text \<open>
  The quiz router (\<^verbatim>\<open>src/server/api/routers/quiz.ts\<close>) is a set of request handlers over
  a relational store reached through an object-relational mapper. The store is modelled as
  one record of tables, each table a list of rows in the order the database returns them.
  Identifiers, scores and durations are integers; a timestamp is the number of
  milliseconds since the epoch, which is what a comparison of two \<^verbatim>\<open>Date\<close> values
  compares; a nullable column is an \<open>option\<close>. Text is a \<open>string\<close>, read as a list of
  UTF-16 code units below 256 (the Latin-1 range), one \<open>char\<close> for each unit; text with
  other code units is outside the model.

  Modelled from the spec: the schema file is not among the sources, so the columns of each
  table are the attributes the data model of the specification lists, with the names the
  handlers and pages use for them.
\<close>

record user =
  u_id :: string
  u_role :: string

record announcement =
  an_id :: int
  an_title :: "string option"
  an_content :: "string option"
  an_url :: "string option"

record package =
  pkg_id :: int
  pkg_name :: string
  pkg_type :: string
  pkg_classId :: int
  pkg_TOstart :: int
  pkg_TOend :: int

record subtest =
  st_id :: int
  st_type :: string
  st_duration :: int
  st_packageId :: int

record question =
  q_id :: int
  q_index :: int
  q_content :: string
  q_imageUrl :: "string option"
  q_type :: string
  q_score :: int
  q_explanation :: "string option"
  q_correctAnswerChoice :: "int option"
  q_subtestId :: int

record answer =
  a_id :: int
  a_index :: int
  a_content :: string
  a_questionId :: int

record quizSession =
  qs_id :: int
  qs_userId :: string
  qs_packageId :: int
  qs_subtestId :: int
  qs_duration :: int
  qs_endTime :: int

record userAnswer =
  ua_userId :: string
  ua_packageId :: int
  ua_quizSessionId :: int
  ua_questionId :: int
  ua_answerChoice :: "int option"
  ua_essayAnswer :: "string option"

record db =
  users :: "user list"
  announcements :: "announcement list"
  packages :: "package list"
  subtests :: "subtest list"
  questions :: "question list"
  answers :: "answer list"
  quizSessions :: "quizSession list"
  userAnswers :: "userAnswer list"

text \<open>
  The request context: \<^verbatim>\<open>ctx.session.user\<close>. Every handler of the router is a
  \<^verbatim>\<open>userProcedure\<close> or a \<^verbatim>\<open>teacherProcedure\<close>, which run the handler for a signed-in
  user only, so the user is present and \<^verbatim>\<open>user?.id\<close> reads its id.
\<close>

record ctx =
  ctx_userId :: string
  ctx_role :: string

text \<open>
  An error is either thrown by a handler, \<^verbatim>\<open>throw new Error(message)\<close>, or by the
  object-relational mapper when the database refuses a statement; the latter carries the
  code of the failure.
\<close>

datatype error = Error string | PrismaClientKnownRequestError string

subsection \<open>Reading rows\<close>

text \<open>
  A row addressed by its primary key (\<^verbatim>\<open>findUnique\<close>, and the row a to-one relation
  points to) is the first row of the table with that key.
\<close>

definition findUnique_package :: "db \<Rightarrow> int \<Rightarrow> package option" where
  "findUnique_package d i = find (\<lambda>p. pkg_id p = i) (packages d)"

definition findUnique_subtest :: "db \<Rightarrow> int \<Rightarrow> subtest option" where
  "findUnique_subtest d i = find (\<lambda>s. st_id s = i) (subtests d)"

definition findUnique_question :: "db \<Rightarrow> int \<Rightarrow> question option" where
  "findUnique_question d i = find (\<lambda>q. q_id q = i) (questions d)"

definition findUnique_quizSession :: "db \<Rightarrow> int \<Rightarrow> quizSession option" where
  "findUnique_quizSession d i = find (\<lambda>s. qs_id s = i) (quizSessions d)"

text \<open>The answer choices of a question (\<^verbatim>\<open>answers\<close>, a to-many relation).\<close>

definition answers_of :: "db \<Rightarrow> int \<Rightarrow> answer list" where
  "answers_of d qid = filter (\<lambda>a. a_questionId a = qid) (answers d)"

section \<open>Strings\<close>

text \<open>
  \<^verbatim>\<open>String.prototype.trim\<close> removes the white space and the line terminators at both
  ends. Among the code units below 256 these are tab, line feed, vertical tab, form feed,
  carriage return, space and the no-break space U+00A0.
\<close>

definition isWhiteSpace :: "char \<Rightarrow> bool" where
  "isWhiteSpace c =
     (c \<in> set [CHR 0x09, CHR 0x0A, CHR 0x0B, CHR 0x0C, CHR 0x0D, CHR 0x20, CHR 0xA0])"

definition trim :: "string \<Rightarrow> string" where
  "trim s = rev (dropWhile isWhiteSpace (rev (dropWhile isWhiteSpace s)))"

text \<open>
  \<^verbatim>\<open>toLowerCase\<close> maps each upper-case letter to its lower-case one. Among the code
  units below 256 the upper-case letters are \<open>A\<close> to \<open>Z\<close> (65 to 90) and the Latin-1
  capitals U+00C0 to U+00DE without the multiplication sign U+00D7 (192 to 222 without
  215); the lower-case letter is 32 above.
\<close>

definition toLowerCase_char :: "char \<Rightarrow> char" where
  "toLowerCase_char c =
     (if (65 \<le> (of_char c :: nat) \<and> (of_char c :: nat) \<le> 90)
         \<or> (192 \<le> (of_char c :: nat) \<and> (of_char c :: nat) \<le> 222 \<and> (of_char c :: nat) \<noteq> 215)
      then char_of ((of_char c :: nat) + 32)
      else c)"

definition toLowerCase :: "string \<Rightarrow> string" where
  "toLowerCase s = map toLowerCase_char s"

section \<open>\<^verbatim>\<open>getPackageWithSubtest\<close>\<close>

subsection \<open>The query\<close>

text \<open>
  The handler first loads \<^verbatim>\<open>packageData\<close>: the package with the given id (without
  its \<^verbatim>\<open>id\<close> and \<^verbatim>\<open>classId\<close>), its subtests, for each subtest the quiz sessions of
  the acting user, and for each session its \<^verbatim>\<open>endTime\<close>, the \<^verbatim>\<open>TOend\<close> of its
  package and those of its user answers whose \<^verbatim>\<open>packageId\<close> is the requested id, each
  with the \<^verbatim>\<open>correctAnswerChoice\<close>, the \<^verbatim>\<open>score\<close> and the answer contents of its
  question. A row whose to-one relation points to no row does not exist in a database that
  enforces its foreign keys; the model leaves such a row out of the result.
\<close>

record question_sel =
  qsel_correctAnswerChoice :: "int option"
  qsel_score :: int
  qsel_answers :: "string list"

record userAnswer_sel =
  uasel_question :: question_sel
  uasel_answerChoice :: "int option"
  uasel_essayAnswer :: "string option"

record session_sel =
  ssel_endTime :: int
  ssel_TOend :: int
  ssel_userAnswers :: "userAnswer_sel list"

record subtest_incl =
  si_subtest :: subtest
  si_quizSession :: "session_sel list"

record packageData =
  pd_name :: string
  pd_type :: string
  pd_TOstart :: int
  pd_TOend :: int
  pd_subtests :: "subtest_incl list"

definition select_question :: "db \<Rightarrow> question \<Rightarrow> question_sel" where
  "select_question d q =
     \<lparr>qsel_correctAnswerChoice = q_correctAnswerChoice q,
      qsel_score = q_score q,
      qsel_answers = map a_content (answers_of d (q_id q))\<rparr>"

definition select_userAnswer :: "db \<Rightarrow> userAnswer \<Rightarrow> userAnswer_sel option" where
  "select_userAnswer d ua =
     map_option
       (\<lambda>q. \<lparr>uasel_question = select_question d q,
             uasel_answerChoice = ua_answerChoice ua,
             uasel_essayAnswer = ua_essayAnswer ua\<rparr>)
       (findUnique_question d (ua_questionId ua))"

text \<open>
  The user answers of session \<open>sid\<close> that the query keeps
  (\<^verbatim>\<open>where: { packageId: input.id }\<close>), as stored rows.
\<close>

definition stored_userAnswers :: "db \<Rightarrow> int \<Rightarrow> int \<Rightarrow> userAnswer list" where
  "stored_userAnswers d sid pid =
     filter (\<lambda>ua. ua_quizSessionId ua = sid \<and> ua_packageId ua = pid) (userAnswers d)"

definition select_userAnswers :: "db \<Rightarrow> int \<Rightarrow> int \<Rightarrow> userAnswer_sel list" where
  "select_userAnswers d sid pid =
     List.map_filter (select_userAnswer d) (stored_userAnswers d sid pid)"

text \<open>
  The sessions of user \<open>uid\<close> for the subtest \<open>stid\<close>
  (\<^verbatim>\<open>where: { userId: ctx.session.user?.id }\<close>), each with its package.
\<close>

definition sessions_of :: "db \<Rightarrow> string \<Rightarrow> int \<Rightarrow> (quizSession \<times> package) list" where
  "sessions_of d uid stid =
     List.map_filter
       (\<lambda>s. map_option (Pair s) (findUnique_package d (qs_packageId s)))
       (filter (\<lambda>s. qs_subtestId s = stid \<and> qs_userId s = uid) (quizSessions d))"

definition select_session :: "db \<Rightarrow> int \<Rightarrow> quizSession \<times> package \<Rightarrow> session_sel" where
  "select_session d pid sp =
     \<lparr>ssel_endTime = qs_endTime (fst sp),
      ssel_TOend = pkg_TOend (snd sp),
      ssel_userAnswers = select_userAnswers d (qs_id (fst sp)) pid\<rparr>"

definition include_subtest :: "db \<Rightarrow> ctx \<Rightarrow> int \<Rightarrow> subtest \<Rightarrow> subtest_incl" where
  "include_subtest d c pid st =
     \<lparr>si_subtest = st,
      si_quizSession = map (select_session d pid) (sessions_of d (ctx_userId c) (st_id st))\<rparr>"

definition subtests_of :: "db \<Rightarrow> int \<Rightarrow> subtest list" where
  "subtests_of d pid = filter (\<lambda>st. st_packageId st = pid) (subtests d)"

definition load_packageData :: "db \<Rightarrow> ctx \<Rightarrow> int \<Rightarrow> packageData option" where
  "load_packageData d c pid =
     map_option
       (\<lambda>p. \<lparr>pd_name = pkg_name p,
             pd_type = pkg_type p,
             pd_TOstart = pkg_TOstart p,
             pd_TOend = pkg_TOend p,
             pd_subtests = map (include_subtest d c pid) (subtests_of d (pkg_id p))\<rparr>)
       (findUnique_package d pid)"

subsection \<open>Scoring\<close>

text \<open>
  \<^verbatim>\<open>answer.question.answers[0]?.content.trim().toLowerCase()\<close>: the optional access
  gives \<^verbatim>\<open>undefined\<close>, here \<open>None\<close>, when the question has no answer choice.
\<close>

definition first_answer_text :: "question_sel \<Rightarrow> string option" where
  "first_answer_text q =
     (case qsel_answers q of
        [] \<Rightarrow> None
      | content # _ \<Rightarrow> Some (toLowerCase (trim content)))"

definition isEssayCorrect :: "string \<Rightarrow> question_sel \<Rightarrow> bool" where
  "isEssayCorrect essay q = (Some (toLowerCase (trim essay)) = first_answer_text q)"

text \<open>
  The callback of \<^verbatim>\<open>quizSession.userAnswers.reduce\<close>; \<open>tot\<close> is its accumulator
  \<^verbatim>\<open>total\<close>.
\<close>

definition score_step :: "int \<Rightarrow> userAnswer_sel \<Rightarrow> int" where
  "score_step tot a =
     (case qsel_correctAnswerChoice (uasel_question a) of
        Some correct \<Rightarrow>
          tot + (if uasel_answerChoice a = Some correct
                   then qsel_score (uasel_question a) else 0)
      | None \<Rightarrow>
          (case uasel_essayAnswer a of
             Some essay \<Rightarrow>
               tot + (if isEssayCorrect essay (uasel_question a)
                        then qsel_score (uasel_question a) else 0)
           | None \<Rightarrow> tot))"

definition session_score :: "session_sel \<Rightarrow> int" where
  "session_score s = foldl score_step 0 (ssel_userAnswers s)"

subsection \<open>The handler\<close>

record subtest_out =
  so_subtest :: subtest
  so_quizSession :: "int option"
  so_score :: "int option"

record package_out =
  po_name :: string
  po_type :: string
  po_TOstart :: int
  po_TOend :: int
  po_totalScore :: int
  po_subtests :: "subtest_out list"

text \<open>
  The callback of \<^verbatim>\<open>packageData.subtests.map\<close>. It reads the clock (\<^verbatim>\<open>new Date()\<close>,
  here \<open>now\<close>) and adds to the variable \<^verbatim>\<open>totalScore\<close>, which is passed in and
  returned.
\<close>

definition score_subtest :: "int \<Rightarrow> subtest_incl \<Rightarrow> int \<Rightarrow> subtest_out \<times> int" where
  "score_subtest now st totalScore =
     (case si_quizSession st of
        [] \<Rightarrow>
          (\<lparr>so_subtest = si_subtest st, so_quizSession = None, so_score = None\<rparr>,
           totalScore)
      | quizSession # _ \<Rightarrow>
          if ssel_TOend quizSession > now
          then (\<lparr>so_subtest = si_subtest st,
                 so_quizSession = Some (ssel_endTime quizSession),
                 so_score = None\<rparr>,
                totalScore)
          else (\<lparr>so_subtest = si_subtest st,
                 so_quizSession = Some (ssel_endTime quizSession),
                 so_score = Some (session_score quizSession)\<rparr>,
                totalScore + session_score quizSession))"

text \<open>
  The map over the subtests, from position \<open>i\<close> on. The clock is read once for each
  subtest: \<open>now i\<close> is the time read while the subtest at position \<open>i\<close> is mapped.
\<close>

fun score_subtests ::
  "(nat \<Rightarrow> int) \<Rightarrow> nat \<Rightarrow> subtest_incl list \<Rightarrow> int \<Rightarrow> subtest_out list \<times> int" where
  "score_subtests now i [] totalScore = ([], totalScore)"
| "score_subtests now i (st # sts) totalScore =
     (case score_subtest (now i) st totalScore of
        (out, totalScore') \<Rightarrow>
          (case score_subtests now (Suc i) sts totalScore' of
             (outs, totalScore'') \<Rightarrow> (out # outs, totalScore'')))"

definition getPackageWithSubtest ::
  "db \<Rightarrow> ctx \<Rightarrow> int \<Rightarrow> (nat \<Rightarrow> int) \<Rightarrow> error + package_out" where
  "getPackageWithSubtest d c input_id now =
     (case load_packageData d c input_id of
        None \<Rightarrow> Inl (Error ''Package not found'')
      | Some packageData \<Rightarrow>
          (case score_subtests now 0 (pd_subtests packageData) 0 of
             (subtestsWithScores, totalScore) \<Rightarrow>
               Inr \<lparr>po_name = pd_name packageData,
                    po_type = pd_type packageData,
                    po_TOstart = pd_TOstart packageData,
                    po_TOend = pd_TOend packageData,
                    po_totalScore = totalScore,
                    po_subtests = subtestsWithScores\<rparr>))"

section \<open>\<^verbatim>\<open>getSession\<close>\<close>

text \<open>\<^verbatim>\<open>findFirst\<close> gives the first matching row, or \<^verbatim>\<open>null\<close>, here \<open>None\<close>.\<close>

definition getSession :: "db \<Rightarrow> string \<Rightarrow> int \<Rightarrow> quizSession option" where
  "getSession d userId subtestId =
     find (\<lambda>s. qs_userId s = userId \<and> qs_subtestId s = subtestId) (quizSessions d)"

section \<open>\<^verbatim>\<open>getQuestionsBySubtest\<close>\<close>

record gq_input =
  gq_subtestId :: int
  gq_userId :: "string option"

text \<open>
  The user whose session is looked up: an administrator may name another user
  (\<^verbatim>\<open>input.userId ?? ctx.session.user?.id\<close>), everybody else gets their own.
\<close>

definition session_userId :: "ctx \<Rightarrow> gq_input \<Rightarrow> string" where
  "session_userId c inp =
     (if ctx_role c = ''admin''
      then (case gq_userId inp of Some u \<Rightarrow> u | None \<Rightarrow> ctx_userId c)
      else ctx_userId c)"

record session_window =
  sw_endTime :: int
  sw_TOend :: int

definition findFirst_session :: "db \<Rightarrow> ctx \<Rightarrow> gq_input \<Rightarrow> session_window option" where
  "findFirst_session d c inp =
     (case sessions_of d (session_userId c inp) (gq_subtestId inp) of
        [] \<Rightarrow> None
      | sp # _ \<Rightarrow> Some \<lparr>sw_endTime = qs_endTime (fst sp), sw_TOend = pkg_TOend (snd sp)\<rparr>)"

text \<open>
  \<^verbatim>\<open>question.findMany\<close> with \<^verbatim>\<open>where: { subtestId }\<close>,
  \<^verbatim>\<open>orderBy: { index: "asc" }\<close> and \<^verbatim>\<open>include: { answers: true }\<close>. Questions with
  the same index keep the order of the table.
\<close>

record question_incl =
  qi_question :: question
  qi_answers :: "answer list"

definition subtest_questions :: "db \<Rightarrow> int \<Rightarrow> question list" where
  "subtest_questions d subtestId = filter (\<lambda>q. q_subtestId q = subtestId) (questions d)"

definition include_answers :: "db \<Rightarrow> question \<Rightarrow> question_incl" where
  "include_answers d q = \<lparr>qi_question = q, qi_answers = answers_of d (q_id q)\<rparr>"

definition findMany_questions :: "db \<Rightarrow> int \<Rightarrow> question_incl list" where
  "findMany_questions d subtestId =
     map (include_answers d) (sort_key q_index (subtest_questions d subtestId))"

text \<open>
  A question as the caller receives it. While the window is open the handler overwrites
  three fields with \<^verbatim>\<open>null\<close>, so these are nullable in the result; \<open>stored_question\<close>
  is a row as \<^verbatim>\<open>findMany\<close> returned it, \<open>redacted_question\<close> the object
  \<^verbatim>\<open>{ ...question, correctAnswerChoice: null, explanation: null, score: null }\<close>.
\<close>

record question_out =
  qo_id :: int
  qo_index :: int
  qo_content :: string
  qo_imageUrl :: "string option"
  qo_type :: string
  qo_score :: "int option"
  qo_explanation :: "string option"
  qo_correctAnswerChoice :: "int option"
  qo_subtestId :: int
  qo_answers :: "answer list"

definition stored_question :: "question_incl \<Rightarrow> question_out" where
  "stored_question qi =
     \<lparr>qo_id = q_id (qi_question qi),
      qo_index = q_index (qi_question qi),
      qo_content = q_content (qi_question qi),
      qo_imageUrl = q_imageUrl (qi_question qi),
      qo_type = q_type (qi_question qi),
      qo_score = Some (q_score (qi_question qi)),
      qo_explanation = q_explanation (qi_question qi),
      qo_correctAnswerChoice = q_correctAnswerChoice (qi_question qi),
      qo_subtestId = q_subtestId (qi_question qi),
      qo_answers = qi_answers qi\<rparr>"

definition redacted_question :: "question_incl \<Rightarrow> question_out" where
  "redacted_question qi =
     (stored_question qi)
       \<lparr>qo_correctAnswerChoice := None, qo_explanation := None, qo_score := None\<rparr>"

text \<open>
  The handler returns \<^verbatim>\<open>null\<close>, a list of questions, or nothing at all
  (\<^verbatim>\<open>undefined\<close>) when no branch of its conditional is taken. It reads the clock once
  in each comparison: \<open>now1\<close> is the value of the first \<^verbatim>\<open>new Date()\<close>, \<open>now2\<close> of
  the second.
\<close>

datatype questions_result = Null | Undefined | Questions "question_out list"

definition getQuestionsBySubtest ::
  "db \<Rightarrow> ctx \<Rightarrow> gq_input \<Rightarrow> int \<Rightarrow> int \<Rightarrow> questions_result" where
  "getQuestionsBySubtest d c inp now1 now2 =
     (case findFirst_session d c inp of
        None \<Rightarrow> Null
      | Some session \<Rightarrow>
          if sw_TOend session > now1
          then Questions (map redacted_question (findMany_questions d (gq_subtestId inp)))
          else if sw_TOend session < now2
          then Questions (map stored_question (findMany_questions d (gq_subtestId inp)))
          else Undefined)"

section \<open>\<^verbatim>\<open>getSessionDetails\<close>\<close>

record session_details =
  sd_session :: quizSession
  sd_subtest :: subtest
  sd_TOend :: int
  sd_userAnswers :: "userAnswer list"

text \<open>
  \<^verbatim>\<open>quizSession.findUnique\<close> with the subtest, the \<^verbatim>\<open>TOend\<close> of the package and the
  user answers of the session (\<^verbatim>\<open>where: { quizSessionId: input.sessionId }\<close>).
\<close>

definition load_sessionDetails :: "db \<Rightarrow> int \<Rightarrow> session_details option" where
  "load_sessionDetails d sessionId =
     (case findUnique_quizSession d sessionId of
        None \<Rightarrow> None
      | Some s \<Rightarrow>
          (case findUnique_subtest d (qs_subtestId s) of
             None \<Rightarrow> None
           | Some st \<Rightarrow>
               (case findUnique_package d (qs_packageId s) of
                  None \<Rightarrow> None
                | Some p \<Rightarrow>
                    Some \<lparr>sd_session = s,
                          sd_subtest = st,
                          sd_TOend = pkg_TOend p,
                          sd_userAnswers =
                            filter (\<lambda>ua. ua_quizSessionId ua = qs_id s
                                         \<and> ua_quizSessionId ua = sessionId)
                              (userAnswers d)\<rparr>)))"

definition getSessionDetails :: "db \<Rightarrow> ctx \<Rightarrow> int \<Rightarrow> session_details option" where
  "getSessionDetails d c sessionId =
     (case load_sessionDetails d sessionId of
        None \<Rightarrow> None
      | Some session \<Rightarrow>
          if qs_userId (sd_session session) \<noteq> ctx_userId c \<and> ctx_role c \<noteq> ''admin''
          then None
          else Some session)"

section \<open>\<^verbatim>\<open>saveAnswer\<close>\<close>

record sa_input =
  sa_answerChoice :: "int option"
  sa_essayAnswer :: "string option"
  sa_questionId :: int
  sa_userId :: string
  sa_packageId :: int
  sa_quizSessionId :: int

text \<open>The compound key \<^verbatim>\<open>userId_quizSessionId_questionId\<close> of the upsert.\<close>

definition same_key :: "sa_input \<Rightarrow> userAnswer \<Rightarrow> bool" where
  "same_key inp ua =
     (ua_userId ua = sa_userId inp
      \<and> ua_quizSessionId ua = sa_quizSessionId inp
      \<and> ua_questionId ua = sa_questionId inp)"

definition update_userAnswer :: "sa_input \<Rightarrow> userAnswer \<Rightarrow> userAnswer" where
  "update_userAnswer inp ua =
     ua\<lparr>ua_answerChoice := sa_answerChoice inp, ua_essayAnswer := sa_essayAnswer inp\<rparr>"

definition create_userAnswer :: "sa_input \<Rightarrow> userAnswer" where
  "create_userAnswer inp =
     \<lparr>ua_userId = sa_userId inp,
      ua_packageId = sa_packageId inp,
      ua_quizSessionId = sa_quizSessionId inp,
      ua_questionId = sa_questionId inp,
      ua_answerChoice = sa_answerChoice inp,
      ua_essayAnswer = sa_essayAnswer inp\<rparr>"

text \<open>
  Modelled from the spec: the foreign keys of a user answer. The interface section of the
  specification says that a user answer refers to a user, a package and a question, and
  the data model that a session owns its user answers; the database refuses to insert a
  row that names a user, a session, a question or a package that is not stored.
\<close>

definition references_exist :: "db \<Rightarrow> sa_input \<Rightarrow> bool" where
  "references_exist d inp =
     (find (\<lambda>u. u_id u = sa_userId inp) (users d) \<noteq> None
      \<and> find (\<lambda>s. qs_id s = sa_quizSessionId inp) (quizSessions d) \<noteq> None
      \<and> find (\<lambda>q. q_id q = sa_questionId inp) (questions d) \<noteq> None
      \<and> find (\<lambda>p. pkg_id p = sa_packageId inp) (packages d) \<noteq> None)"

text \<open>
  \<^verbatim>\<open>userAnswer.upsert\<close>: when a row has the key, the \<^verbatim>\<open>update\<close> data are written to
  the rows with that key (the unique index on the key leaves at most one) and the updated
  row is returned. Otherwise the \<^verbatim>\<open>create\<close> data become a new row, unless a foreign
  key fails: then the call throws the error with code \<open>P2003\<close> and writes nothing.
  The result is the error, or the row returned and the rows of the table.
\<close>

definition upsert_userAnswer :: "db \<Rightarrow> sa_input \<Rightarrow> error + userAnswer \<times> userAnswer list" where
  "upsert_userAnswer d inp =
     (case find (same_key inp) (userAnswers d) of
        Some row \<Rightarrow>
          Inr (update_userAnswer inp row,
               map (\<lambda>r. if same_key inp r then update_userAnswer inp r else r) (userAnswers d))
      | None \<Rightarrow>
          if references_exist d inp
          then Inr (create_userAnswer inp, userAnswers d @ [create_userAnswer inp])
          else Inl (PrismaClientKnownRequestError ''P2003''))"

text \<open>
  The key of a stored row, and the unique index on it: no two rows of the table have the
  same key.
\<close>

definition key_of :: "userAnswer \<Rightarrow> string \<times> int \<times> int" where
  "key_of ua = (ua_userId ua, ua_quizSessionId ua, ua_questionId ua)"

definition unique_keys :: "userAnswer list \<Rightarrow> bool" where
  "unique_keys rows = distinct (map key_of rows)"

text \<open>
  The handler returns its result, a row or the error thrown, and the store after it. An
  error of the upsert is not caught.
\<close>

definition saveAnswer :: "db \<Rightarrow> sa_input \<Rightarrow> (error + userAnswer) \<times> db" where
  "saveAnswer d inp =
     (if sa_answerChoice inp = None \<and> sa_essayAnswer inp = None
      then (Inl (Error ''Either answerChoice or essayAnswer must be provided.''), d)
      else (case upsert_userAnswer d inp of
              Inl e \<Rightarrow> (Inl e, d)
            | Inr (userAnswer, rows) \<Rightarrow> (Inr userAnswer, d\<lparr>userAnswers := rows\<rparr>)))"

section \<open>\<^verbatim>\<open>upsertAnnouncement\<close>\<close>

record ann_input =
  ai_title :: "string option"
  ai_content :: "string option"
  ai_url :: "string option"

text \<open>
  The three input fields are optional. In the \<^verbatim>\<open>update\<close> data a field that is
  \<^verbatim>\<open>undefined\<close> leaves the column as it is; in the \<^verbatim>\<open>create\<close> data it leaves the
  column empty.
\<close>

definition set_field :: "'a option \<Rightarrow> 'a option \<Rightarrow> 'a option" where
  "set_field new old = (case new of Some v \<Rightarrow> Some v | None \<Rightarrow> old)"

definition update_announcement :: "ann_input \<Rightarrow> announcement \<Rightarrow> announcement" where
  "update_announcement inp a =
     a\<lparr>an_content := set_field (ai_content inp) (an_content a),
       an_title := set_field (ai_title inp) (an_title a),
       an_url := set_field (ai_url inp) (an_url a)\<rparr>"

text \<open>
  The \<^verbatim>\<open>create\<close> data give no \<^verbatim>\<open>id\<close>, so a new row gets the id the table generates
  for it. The schema that says how is not among the sources: the generated id is the
  parameter \<open>new_id\<close>.
\<close>

definition create_announcement :: "int \<Rightarrow> ann_input \<Rightarrow> announcement" where
  "create_announcement new_id inp =
     \<lparr>an_id = new_id,
      an_title = ai_title inp,
      an_content = ai_content inp,
      an_url = ai_url inp\<rparr>"

definition upsertAnnouncement :: "db \<Rightarrow> int \<Rightarrow> ann_input \<Rightarrow> announcement \<times> db" where
  "upsertAnnouncement d new_id inp =
     (case find (\<lambda>a. an_id a = 1) (announcements d) of
        Some row \<Rightarrow>
          (update_announcement inp row,
           d\<lparr>announcements :=
               map (\<lambda>a. if an_id a = 1 then update_announcement inp a else a)
                 (announcements d)\<rparr>)
      | None \<Rightarrow>
          (create_announcement new_id inp,
           d\<lparr>announcements := announcements d @ [create_announcement new_id inp]\<rparr>))"

text \<open>
  A sequence of calls, each with the id the table would generate at that call and its
  input; the result is the store after the last call.
\<close>

fun upsertAnnouncement_calls :: "db \<Rightarrow> (int \<times> ann_input) list \<Rightarrow> db" where
  "upsertAnnouncement_calls d [] = d"
| "upsertAnnouncement_calls d (call # calls) =
     upsertAnnouncement_calls (snd (upsertAnnouncement d (fst call) (snd call))) calls"

section \<open>What the specification says of the score\<close>








section \<open>Example stores\<close>

text \<open>
  The end-to-end scenario of the specification: a package whose window ended at time 1000,
  with two subtests; the first has a multiple-choice question (correct choice 1, score 10)
  and an essay question (expected text \<open>Jakarta\<close>, score 5). User \<open>u1\<close> has a session
  for the first subtest and answered both questions correctly. A second package, with id 2,
  has no subtests.
\<close>

definition ex_user :: ctx where
  "ex_user = \<lparr>ctx_userId = ''u1'', ctx_role = ''user''\<rparr>"

definition ex_other_user :: ctx where
  "ex_other_user = \<lparr>ctx_userId = ''u2'', ctx_role = ''user''\<rparr>"

definition ex_admin :: ctx where
  "ex_admin = \<lparr>ctx_userId = ''t1'', ctx_role = ''admin''\<rparr>"

definition ex_package :: package where
  "ex_package =
     \<lparr>pkg_id = 1, pkg_name = ''Tryout 1'', pkg_type = ''tryout'', pkg_classId = 1,
      pkg_TOstart = 0, pkg_TOend = 1000\<rparr>"

definition ex_drill_package :: package where
  "ex_drill_package =
     \<lparr>pkg_id = 2, pkg_name = ''Drill 1'', pkg_type = ''drill'', pkg_classId = 1,
      pkg_TOstart = 0, pkg_TOend = 5000\<rparr>"

definition ex_subtest1 :: subtest where
  "ex_subtest1 = \<lparr>st_id = 1, st_type = ''pu'', st_duration = 30, st_packageId = 1\<rparr>"

definition ex_subtest2 :: subtest where
  "ex_subtest2 = \<lparr>st_id = 2, st_type = ''pk'', st_duration = 20, st_packageId = 1\<rparr>"

definition ex_choice_question :: question where
  "ex_choice_question =
     \<lparr>q_id = 1, q_index = 2, q_content = ''Capital of West Java?'', q_imageUrl = None,
      q_type = ''mulChoice'', q_score = 10, q_explanation = Some ''See the map.'',
      q_correctAnswerChoice = Some 1, q_subtestId = 1\<rparr>"

definition ex_essay_question :: question where
  "ex_essay_question =
     \<lparr>q_id = 2, q_index = 1, q_content = ''Capital of Indonesia?'', q_imageUrl = None,
      q_type = ''essay'', q_score = 5, q_explanation = None,
      q_correctAnswerChoice = None, q_subtestId = 1\<rparr>"

definition ex_answers :: "answer list" where
  "ex_answers =
     [\<lparr>a_id = 1, a_index = 1, a_content = ''Bandung'', a_questionId = 1\<rparr>,
      \<lparr>a_id = 2, a_index = 2, a_content = ''Bogor'', a_questionId = 1\<rparr>,
      \<lparr>a_id = 3, a_index = 1, a_content = ''Jakarta'', a_questionId = 2\<rparr>]"

definition ex_session :: quizSession where
  "ex_session =
     \<lparr>qs_id = 1, qs_userId = ''u1'', qs_packageId = 1, qs_subtestId = 1,
      qs_duration = 30, qs_endTime = 900\<rparr>"

definition ex_choice_answer :: userAnswer where
  "ex_choice_answer =
     \<lparr>ua_userId = ''u1'', ua_packageId = 1, ua_quizSessionId = 1, ua_questionId = 1,
      ua_answerChoice = Some 1, ua_essayAnswer = None\<rparr>"

definition ex_essay_answer :: userAnswer where
  "ex_essay_answer =
     \<lparr>ua_userId = ''u1'', ua_packageId = 1, ua_quizSessionId = 1, ua_questionId = 2,
      ua_answerChoice = None, ua_essayAnswer = Some '' jakarta ''\<rparr>"

definition ex_db :: db where
  "ex_db =
     \<lparr>users =
        [\<lparr>u_id = ''u1'', u_role = ''user''\<rparr>,
         \<lparr>u_id = ''u2'', u_role = ''user''\<rparr>,
         \<lparr>u_id = ''t1'', u_role = ''admin''\<rparr>],
      announcements = [],
      packages = [ex_package, ex_drill_package],
      subtests = [ex_subtest1, ex_subtest2],
      questions = [ex_choice_question, ex_essay_question],
      answers = ex_answers,
      quizSessions = [ex_session],
      userAnswers = [ex_choice_answer, ex_essay_answer]\<rparr>"

definition empty_db :: db where
  "empty_db =
     \<lparr>users = [], announcements = [], packages = [], subtests = [], questions = [],
      answers = [], quizSessions = [], userAnswers = []\<rparr>"

text \<open>A clock that reads 2000 at every subtest: the window of the package has closed.\<close>

definition ex_clock :: "nat \<Rightarrow> int" where
  "ex_clock i = 2000"

text \<open>
  The result for the example package when the first subtest has score \<open>n\<close> and the second
  has no session.
\<close>

definition ex_scored :: "int \<Rightarrow> package_out" where
  "ex_scored n =
     \<lparr>po_name = ''Tryout 1'', po_type = ''tryout'', po_TOstart = 0, po_TOend = 1000,
      po_totalScore = n,
      po_subtests =
        [\<lparr>so_subtest = ex_subtest1, so_quizSession = Some 900, so_score = Some n\<rparr>,
         \<lparr>so_subtest = ex_subtest2, so_quizSession = None, so_score = None\<rparr>]\<rparr>"





text \<open>
  A store in which package 2, open until 5000, owns a third subtest with one question, and
  user \<open>u1\<close> has a session for that subtest recorded under package 1, whose window ended
  at 1000. \<open>ex_leak_input\<close> is the request of \<open>u1\<close> for the questions of the third
  subtest.
\<close>

definition ex_subtest3 :: subtest where
  "ex_subtest3 = \<lparr>st_id = 3, st_type = ''pbm'', st_duration = 15, st_packageId = 2\<rparr>"

definition ex_drill_question :: question where
  "ex_drill_question =
     \<lparr>q_id = 3, q_index = 1, q_content = ''Synonym of big?'', q_imageUrl = None,
      q_type = ''mulChoice'', q_score = 7, q_explanation = Some ''Large.'',
      q_correctAnswerChoice = Some 2, q_subtestId = 3\<rparr>"

definition ex_drill_answers :: "answer list" where
  "ex_drill_answers =
     [\<lparr>a_id = 4, a_index = 1, a_content = ''small'', a_questionId = 3\<rparr>,
      \<lparr>a_id = 5, a_index = 2, a_content = ''large'', a_questionId = 3\<rparr>]"

definition ex_db_leak :: db where
  "ex_db_leak =
     ex_db\<lparr>subtests := [ex_subtest1, ex_subtest2, ex_subtest3],
           questions := [ex_choice_question, ex_essay_question, ex_drill_question],
           answers := ex_answers @ ex_drill_answers,
           quizSessions :=
             [ex_session,
              \<lparr>qs_id = 2, qs_userId = ''u1'', qs_packageId = 1, qs_subtestId = 3,
               qs_duration = 15, qs_endTime = 1900\<rparr>]\<rparr>"

definition ex_leak_input :: gq_input where
  "ex_leak_input = \<lparr>gq_subtestId = 3, gq_userId = None\<rparr>"

text \<open>
  Inputs of \<^verbatim>\<open>saveAnswer\<close>. In the store \<open>ex_db_one_answer\<close> the user has answered
  the multiple-choice question only; \<open>ex_save_essay\<close> is a first answer to the essay
  question and \<open>ex_save_essay_again\<close> a second one, with another text.
  \<open>ex_changed_answer\<close> has the key of the stored answer to the multiple-choice question,
  another choice and another package id; \<open>ex_no_answer\<close> has neither a choice nor a text.
\<close>

definition ex_db_one_answer :: db where
  "ex_db_one_answer = ex_db\<lparr>userAnswers := [ex_choice_answer]\<rparr>"

definition ex_save_essay :: sa_input where
  "ex_save_essay =
     \<lparr>sa_answerChoice = None, sa_essayAnswer = Some ''jakarta'', sa_questionId = 2,
      sa_userId = ''u1'', sa_packageId = 1, sa_quizSessionId = 1\<rparr>"

definition ex_save_essay_again :: sa_input where
  "ex_save_essay_again =
     \<lparr>sa_answerChoice = None, sa_essayAnswer = Some ''Jakarta'', sa_questionId = 2,
      sa_userId = ''u1'', sa_packageId = 1, sa_quizSessionId = 1\<rparr>"

definition ex_changed_answer :: sa_input where
  "ex_changed_answer =
     \<lparr>sa_answerChoice = Some 2, sa_essayAnswer = None, sa_questionId = 1,
      sa_userId = ''u1'', sa_packageId = 2, sa_quizSessionId = 1\<rparr>"

definition ex_no_answer :: sa_input where
  "ex_no_answer =
     \<lparr>sa_answerChoice = None, sa_essayAnswer = None, sa_questionId = 1,
      sa_userId = ''u1'', sa_packageId = 1, sa_quizSessionId = 1\<rparr>"

text \<open>A valid input that names a session, 7, that is not stored.\<close>

definition ex_dangling_answer :: sa_input where
  "ex_dangling_answer =
     \<lparr>sa_answerChoice = Some 1, sa_essayAnswer = None, sa_questionId = 1,
      sa_userId = ''u1'', sa_packageId = 1, sa_quizSessionId = 7\<rparr>"

text \<open>The request of user \<open>u1\<close> for the questions of the first subtest.\<close>

definition ex_questions_input :: gq_input where
  "ex_questions_input = \<lparr>gq_subtestId = 1, gq_userId = None\<rparr>"

text \<open>
  The example store without any answer choice, and what the query loads there for the two
  user answers of the session: the essay question has an empty list of choices.
\<close>

definition ex_db_no_choices :: db where
  "ex_db_no_choices = ex_db\<lparr>answers := []\<rparr>"

definition ex_choice_loaded :: userAnswer_sel where
  "ex_choice_loaded =
     \<lparr>uasel_question =
        \<lparr>qsel_correctAnswerChoice = Some 1, qsel_score = 10, qsel_answers = []\<rparr>,
      uasel_answerChoice = Some 1,
      uasel_essayAnswer = None\<rparr>"

definition ex_essay_loaded :: userAnswer_sel where
  "ex_essay_loaded =
     \<lparr>uasel_question =
        \<lparr>qsel_correctAnswerChoice = None, qsel_score = 5, qsel_answers = []\<rparr>,
      uasel_answerChoice = None,
      uasel_essayAnswer = Some '' jakarta ''\<rparr>"

text \<open>
  Stores for \<^verbatim>\<open>upsertAnnouncement\<close>: one whose only announcement has id 1, one whose
  only announcement has id 2, and one that has both. \<open>ex_calls\<close> is two calls for which
  the table would generate the ids 3 and 4.
\<close>

definition ex_announcement :: "int \<Rightarrow> announcement" where
  "ex_announcement i =
     \<lparr>an_id = i, an_title = Some ''Welcome'', an_content = Some ''Tryout on Monday'',
      an_url = None\<rparr>"

definition ex_db_announcement_1 :: db where
  "ex_db_announcement_1 = empty_db\<lparr>announcements := [ex_announcement 1]\<rparr>"

definition ex_db_announcement_2 :: db where
  "ex_db_announcement_2 = empty_db\<lparr>announcements := [ex_announcement 2]\<rparr>"

definition ex_db_announcements_1_2 :: db where
  "ex_db_announcements_1_2 =
     empty_db\<lparr>announcements := [ex_announcement 1, ex_announcement 2]\<rparr>"

definition ex_news :: ann_input where
  "ex_news = \<lparr>ai_title = Some ''News'', ai_content = None, ai_url = Some ''/news''\<rparr>"

definition ex_calls :: "(int \<times> ann_input) list" where
  "ex_calls = [(3, ex_news), (4, ex_news)]"

section \<open>The score of a subtest\<close>

subsection \<open>The reduction is a sum\<close>







subsection \<open>The map over the subtests\<close>








text \<open>
  The first session of a user for a subtest, with its package, is the first session the
  query loads.
\<close>

lemma find_Some_filter: "find P xs = Some x \<Longrightarrow> \<exists>ys. filter P xs = x # ys"
  by (induction xs) (auto split: if_splits)

lemma sessions_of_first:
  assumes "find (\<lambda>s. qs_subtestId s = stid \<and> qs_userId s = uid) (quizSessions d) = Some s"
    and "find (\<lambda>p. pkg_id p = qs_packageId s) (packages d) = Some p"
  shows "\<exists>rest. sessions_of d uid stid = (s, p) # rest"
proof -
  from find_Some_filter [OF assms(1)] obtain ys
    where "filter (\<lambda>s. qs_subtestId s = stid \<and> qs_userId s = uid) (quizSessions d) = s # ys"
    by blast
  with assms(2) show ?thesis
    by (simp add: sessions_of_def findUnique_package_def List.map_filter_simps)
qed




subsection \<open>Claim C1\<close>




subsection \<open>Claim C10\<close>

text \<open>
  Claim C10: the reduction is total on degenerate data. For a user answer with a text in
  \<open>essayAnswer\<close> whose question has no \<open>correctAnswerChoice\<close> and an empty list of
  answer choices, the optional access to the first choice gives no text, the essay
  comparison is false, the step of the reduction leaves the total as it is, and the score
  of a session is the same with and without that answer: it contributes exactly 0.
\<close>

theorem score_step_no_answers:
  assumes "qsel_correctAnswerChoice (uasel_question a) = None"
    and "uasel_essayAnswer a = Some essay"
    and "qsel_answers (uasel_question a) = []"
  shows "first_answer_text (uasel_question a) = None
    \<and> \<not> isEssayCorrect essay (uasel_question a)
    \<and> score_step tot a = tot
    \<and> session_score (s\<lparr>ssel_userAnswers := before @ a # after\<rparr>)
        = session_score (s\<lparr>ssel_userAnswers := before @ after\<rparr>)"
proof -
  from assms have none: "first_answer_text (uasel_question a) = None"
    by (simp add: first_answer_text_def)
  then have wrong: "\<not> isEssayCorrect essay (uasel_question a)"
    by (simp add: isEssayCorrect_def)
  with assms have step: "score_step t a = t" for t
    by (simp add: score_step_def)
  have "session_score (s\<lparr>ssel_userAnswers := before @ a # after\<rparr>)
      = session_score (s\<lparr>ssel_userAnswers := before @ after\<rparr>)"
    by (simp add: session_score_def step)
  with none wrong step show ?thesis by simp
qed

text \<open>
  In the example store without answer choices the essay adds nothing: the session scores
  the 10 points of the multiple-choice question, and so does the package.
\<close>

theorem score_step_no_answers_witness:
  "select_userAnswers ex_db_no_choices 1 1 = [ex_choice_loaded] @ ex_essay_loaded # []
   \<and> qsel_correctAnswerChoice (uasel_question ex_essay_loaded) = None
   \<and> uasel_essayAnswer ex_essay_loaded = Some '' jakarta ''
   \<and> qsel_answers (uasel_question ex_essay_loaded) = []
   \<and> score_step 10 ex_essay_loaded = 10
   \<and> session_score
        \<lparr>ssel_endTime = 900, ssel_TOend = 1000,
         ssel_userAnswers = [ex_choice_loaded] @ ex_essay_loaded # []\<rparr>
      = session_score
        \<lparr>ssel_endTime = 900, ssel_TOend = 1000, ssel_userAnswers = [ex_choice_loaded] @ []\<rparr>
   \<and> getPackageWithSubtest ex_db_no_choices ex_user 1 ex_clock = Inr (ex_scored 10)"
proof -
  have loaded: "select_userAnswers ex_db_no_choices 1 1
      = [ex_choice_loaded] @ ex_essay_loaded # []"
    by code_simp
  have a: "qsel_correctAnswerChoice (uasel_question ex_essay_loaded) = None"
    by (simp add: ex_essay_loaded_def)
  have b: "uasel_essayAnswer ex_essay_loaded = Some '' jakarta ''"
    by (simp add: ex_essay_loaded_def)
  have c: "qsel_answers (uasel_question ex_essay_loaded) = []"
    by (simp add: ex_essay_loaded_def)
  have run: "getPackageWithSubtest ex_db_no_choices ex_user 1 ex_clock = Inr (ex_scored 10)"
    by code_simp
  from score_step_no_answers [OF a b c, where tot = 10
      and s = "\<lparr>ssel_endTime = 900, ssel_TOend = 1000, ssel_userAnswers = []\<rparr>"
      and before = "[ex_choice_loaded]" and after = "[]"]
    loaded a b c run
  show ?thesis by simp
qed

section \<open>The questions of a subtest\<close>

lemma sorted_findMany_questions:
  "sorted (map (q_index \<circ> qi_question) (findMany_questions d stid))"
  by (simp add: findMany_questions_def include_answers_def comp_def sorted_sort_key)

lemma mset_findMany_questions:
  "mset (map f (findMany_questions d stid)) =
   mset (map (\<lambda>q. f \<lparr>qi_question = q,
                       qi_answers = filter (\<lambda>a. a_questionId a = q_id q) (answers d)\<rparr>)
          (filter (\<lambda>q. q_subtestId q = stid) (questions d)))"
  by (simp add: findMany_questions_def include_answers_def subtest_questions_def
      answers_of_def comp_def)

lemma findFirst_session_first:
  assumes "find (\<lambda>s. qs_subtestId s = gq_subtestId inp \<and> qs_userId s = session_userId c inp)
      (quizSessions d) = Some s"
    and "find (\<lambda>p. pkg_id p = qs_packageId s) (packages d) = Some p"
  shows "findFirst_session d c inp = Some \<lparr>sw_endTime = qs_endTime s, sw_TOend = pkg_TOend p\<rparr>"
proof -
  from sessions_of_first [OF assms] obtain rest
    where "sessions_of d (session_userId c inp) (gq_subtestId inp) = (s, p) # rest" by blast
  then show ?thesis by (simp add: findFirst_session_def)
qed

lemma redacted_questions:
  assumes "out = map redacted_question (findMany_questions d stid)"
  shows "sorted (map qo_index out)"
    and "mset out =
      mset (map (\<lambda>q. \<lparr>qo_id = q_id q, qo_index = q_index q, qo_content = q_content q,
                       qo_imageUrl = q_imageUrl q, qo_type = q_type q, qo_score = None,
                       qo_explanation = None, qo_correctAnswerChoice = None,
                       qo_subtestId = q_subtestId q,
                       qo_answers = filter (\<lambda>a. a_questionId a = q_id q) (answers d)\<rparr>)
             (filter (\<lambda>q. q_subtestId q = stid) (questions d)))"
    and "\<forall>r\<in>set out.
           qo_correctAnswerChoice r = None \<and> qo_explanation r = None \<and> qo_score r = None"
proof -
  show "sorted (map qo_index out)"
    using sorted_findMany_questions [of d stid]
    by (simp add: assms redacted_question_def stored_question_def comp_def)
  show "mset out =
      mset (map (\<lambda>q. \<lparr>qo_id = q_id q, qo_index = q_index q, qo_content = q_content q,
                       qo_imageUrl = q_imageUrl q, qo_type = q_type q, qo_score = None,
                       qo_explanation = None, qo_correctAnswerChoice = None,
                       qo_subtestId = q_subtestId q,
                       qo_answers = filter (\<lambda>a. a_questionId a = q_id q) (answers d)\<rparr>)
             (filter (\<lambda>q. q_subtestId q = stid) (questions d)))"
    unfolding assms mset_findMany_questions
    by (simp add: redacted_question_def stored_question_def)
  show "\<forall>r\<in>set out.
           qo_correctAnswerChoice r = None \<and> qo_explanation r = None \<and> qo_score r = None"
    by (auto simp: assms redacted_question_def)
qed

lemma stored_questions:
  assumes "out = map stored_question (findMany_questions d stid)"
  shows "sorted (map qo_index out)"
    and "mset out =
      mset (map (\<lambda>q. \<lparr>qo_id = q_id q, qo_index = q_index q, qo_content = q_content q,
                       qo_imageUrl = q_imageUrl q, qo_type = q_type q,
                       qo_score = Some (q_score q), qo_explanation = q_explanation q,
                       qo_correctAnswerChoice = q_correctAnswerChoice q,
                       qo_subtestId = q_subtestId q,
                       qo_answers = filter (\<lambda>a. a_questionId a = q_id q) (answers d)\<rparr>)
             (filter (\<lambda>q. q_subtestId q = stid) (questions d)))"
proof -
  show "sorted (map qo_index out)"
    using sorted_findMany_questions [of d stid]
    by (simp add: assms stored_question_def comp_def)
  show "mset out =
      mset (map (\<lambda>q. \<lparr>qo_id = q_id q, qo_index = q_index q, qo_content = q_content q,
                       qo_imageUrl = q_imageUrl q, qo_type = q_type q,
                       qo_score = Some (q_score q), qo_explanation = q_explanation q,
                       qo_correctAnswerChoice = q_correctAnswerChoice q,
                       qo_subtestId = q_subtestId q,
                       qo_answers = filter (\<lambda>a. a_questionId a = q_id q) (answers d)\<rparr>)
             (filter (\<lambda>q. q_subtestId q = stid) (questions d)))"
    unfolding assms mset_findMany_questions
    by (simp add: stored_question_def)
qed

lemma getQuestionsBySubtest_open:
  "findFirst_session d c inp = Some session \<Longrightarrow> sw_TOend session > now1 \<Longrightarrow>
   getQuestionsBySubtest d c inp now1 now2 =
     Questions (map redacted_question (findMany_questions d (gq_subtestId inp)))"
  by (simp add: getQuestionsBySubtest_def)

lemma getQuestionsBySubtest_closed:
  "findFirst_session d c inp = Some session \<Longrightarrow>
   sw_TOend session \<le> now1 \<Longrightarrow> sw_TOend session < now2 \<Longrightarrow>
   getQuestionsBySubtest d c inp now1 now2 =
     Questions (map stored_question (findMany_questions d (gq_subtestId inp)))"
  by (simp add: getQuestionsBySubtest_def)

subsection \<open>Claim C2\<close>

text \<open>
  Claim C2 says that while the \<open>TOend\<close> of the package that owns the subtest is in the
  future, no returned question carries its \<open>correctAnswerChoice\<close>, \<open>explanation\<close> or
  \<open>score\<close>. The handler compares the \<open>TOend\<close> of the package recorded in the
  session, and a session is created with the package id and the subtest id the client
  sends. In the store below the third subtest belongs to package 2, whose window is open
  until 5000, and the session of user \<open>u1\<close> for it is recorded under package 1, whose
  window ended at 1000: at time 2000 the call returns the question with its correct
  choice, its explanation and its score.
\<close>

theorem getQuestionsBySubtest_window_counterexample:
  "findUnique_subtest ex_db_leak (gq_subtestId ex_leak_input) = Some ex_subtest3
   \<and> findUnique_package ex_db_leak (st_packageId ex_subtest3) = Some ex_drill_package
   \<and> pkg_TOend ex_drill_package > 2000
   \<and> getQuestionsBySubtest ex_db_leak ex_user ex_leak_input 2000 2000 =
       Questions
         [\<lparr>qo_id = 3, qo_index = 1, qo_content = ''Synonym of big?'', qo_imageUrl = None,
           qo_type = ''mulChoice'', qo_score = Some 7, qo_explanation = Some ''Large.'',
           qo_correctAnswerChoice = Some 2, qo_subtestId = 3,
           qo_answers = ex_drill_answers\<rparr>]"
  by code_simp

text \<open>
  Claim C2, as the handler behaves. Let \<open>s\<close> be the first stored session of the user the
  call looks up for the subtest of the call, and \<open>p\<close> the package recorded in \<open>s\<close>. If
  the \<open>TOend\<close> of \<open>p\<close> is later than the time of the first comparison, the call returns
  a list of questions in which every \<open>correctAnswerChoice\<close>, every \<open>explanation\<close> and
  every \<open>score\<close> is null. If the \<open>TOend\<close> of \<open>p\<close> has passed at both comparisons, it
  returns the questions with these fields as stored. In both cases the list is sorted by
  \<open>index\<close> ascending and holds exactly the stored questions of the subtest, once each,
  every other field as stored and every question with the answer choices stored for it.
\<close>

theorem getQuestionsBySubtest_window:
  assumes "find (\<lambda>s. qs_subtestId s = gq_subtestId inp \<and> qs_userId s = session_userId c inp)
      (quizSessions d) = Some s"
    and "find (\<lambda>p. pkg_id p = qs_packageId s) (packages d) = Some p"
  shows "(pkg_TOend p > now1 \<longrightarrow>
           (\<exists>out. getQuestionsBySubtest d c inp now1 now2 = Questions out
              \<and> sorted (map qo_index out)
              \<and> mset out =
                  mset (map (\<lambda>q. \<lparr>qo_id = q_id q, qo_index = q_index q,
                                  qo_content = q_content q, qo_imageUrl = q_imageUrl q,
                                  qo_type = q_type q, qo_score = None,
                                  qo_explanation = None, qo_correctAnswerChoice = None,
                                  qo_subtestId = q_subtestId q,
                                  qo_answers =
                                    filter (\<lambda>a. a_questionId a = q_id q) (answers d)\<rparr>)
                         (filter (\<lambda>q. q_subtestId q = gq_subtestId inp) (questions d)))
              \<and> (\<forall>r\<in>set out.
                    qo_correctAnswerChoice r = None
                    \<and> qo_explanation r = None
                    \<and> qo_score r = None)))
    \<and> (pkg_TOend p \<le> now1 \<and> pkg_TOend p < now2 \<longrightarrow>
           (\<exists>out. getQuestionsBySubtest d c inp now1 now2 = Questions out
              \<and> sorted (map qo_index out)
              \<and> mset out =
                  mset (map (\<lambda>q. \<lparr>qo_id = q_id q, qo_index = q_index q,
                                  qo_content = q_content q, qo_imageUrl = q_imageUrl q,
                                  qo_type = q_type q, qo_score = Some (q_score q),
                                  qo_explanation = q_explanation q,
                                  qo_correctAnswerChoice = q_correctAnswerChoice q,
                                  qo_subtestId = q_subtestId q,
                                  qo_answers =
                                    filter (\<lambda>a. a_questionId a = q_id q) (answers d)\<rparr>)
                         (filter (\<lambda>q. q_subtestId q = gq_subtestId inp) (questions d)))))"
proof -
  have session: "findFirst_session d c inp =
      Some \<lparr>sw_endTime = qs_endTime s, sw_TOend = pkg_TOend p\<rparr>"
    using assms by (rule findFirst_session_first)
  have "getQuestionsBySubtest d c inp now1 now2 =
      Questions (map redacted_question (findMany_questions d (gq_subtestId inp)))"
    if "pkg_TOend p > now1"
    using getQuestionsBySubtest_open [OF session, of now1 now2] that by simp
  moreover have "getQuestionsBySubtest d c inp now1 now2 =
      Questions (map stored_question (findMany_questions d (gq_subtestId inp)))"
    if "pkg_TOend p \<le> now1" "pkg_TOend p < now2"
    using getQuestionsBySubtest_closed [OF session, of now1 now2] that by simp
  ultimately show ?thesis
    using redacted_questions [OF refl, of d "gq_subtestId inp"]
      stored_questions [OF refl, of d "gq_subtestId inp"]
    by blast
qed

text \<open>
  User \<open>u1\<close> asks for the questions of the first subtest; the session is recorded under
  package 1, whose window ends at 1000. At time 500 the two questions come back in the
  order of their indices (ids 2 and 1) without scores, at time 2000 with the scores 5 and
  10 and the correct choice of the second.
\<close>

theorem getQuestionsBySubtest_window_witness:
  "find (\<lambda>s. qs_subtestId s = gq_subtestId ex_questions_input
            \<and> qs_userId s = session_userId ex_user ex_questions_input)
     (quizSessions ex_db) = Some ex_session
   \<and> find (\<lambda>p. pkg_id p = qs_packageId ex_session) (packages ex_db) = Some ex_package
   \<and> pkg_TOend ex_package = 1000
   \<and> getQuestionsBySubtest ex_db ex_user ex_questions_input 500 500
     = Questions (map redacted_question (findMany_questions ex_db 1))
   \<and> map qo_id (map redacted_question (findMany_questions ex_db 1)) = [2, 1]
   \<and> map qo_score (map redacted_question (findMany_questions ex_db 1)) = [None, None]
   \<and> getQuestionsBySubtest ex_db ex_user ex_questions_input 2000 2000
     = Questions (map stored_question (findMany_questions ex_db 1))
   \<and> map qo_score (map stored_question (findMany_questions ex_db 1)) = [Some 5, Some 10]
   \<and> map qo_correctAnswerChoice (map stored_question (findMany_questions ex_db 1))
     = [None, Some 1]"
proof -
  have s: "find (\<lambda>s. qs_subtestId s = gq_subtestId ex_questions_input
            \<and> qs_userId s = session_userId ex_user ex_questions_input)
      (quizSessions ex_db) = Some ex_session"
    by code_simp
  have p: "find (\<lambda>p. pkg_id p = qs_packageId ex_session) (packages ex_db) = Some ex_package"
    by code_simp
  have "pkg_TOend ex_package = 1000"
    by code_simp
  moreover have "getQuestionsBySubtest ex_db ex_user ex_questions_input 500 500
      = Questions (map redacted_question (findMany_questions ex_db 1))"
    by code_simp
  moreover have "getQuestionsBySubtest ex_db ex_user ex_questions_input 2000 2000
      = Questions (map stored_question (findMany_questions ex_db 1))"
    by code_simp
  moreover have "map qo_id (map redacted_question (findMany_questions ex_db 1)) = [2, 1]"
    by code_simp
  moreover have
    "map qo_score (map redacted_question (findMany_questions ex_db 1)) = [None, None]"
    by code_simp
  moreover have
    "map qo_score (map stored_question (findMany_questions ex_db 1)) = [Some 5, Some 10]"
    by code_simp
  moreover have
    "map qo_correctAnswerChoice (map stored_question (findMany_questions ex_db 1))
      = [None, Some 1]"
    by code_simp
  ultimately show ?thesis
    using s p getQuestionsBySubtest_window [OF s p, of 500 500] by simp
qed

subsection \<open>Claim C5\<close>



section \<open>Saving an answer\<close>

subsection \<open>Claim C3\<close>

text \<open>
  Claim C3. When both \<open>answerChoice\<close> and \<open>essayAnswer\<close> are null, \<^verbatim>\<open>saveAnswer\<close>
  raises the error, whatever the store holds, and leaves the store as it was: the check
  comes before the upsert, so no row is created or modified.
\<close>

theorem saveAnswer_requires_answer:
  "sa_answerChoice inp = None \<Longrightarrow> sa_essayAnswer inp = None \<Longrightarrow>
   saveAnswer d inp = (Inl (Error ''Either answerChoice or essayAnswer must be provided.''), d)"
  by (simp add: saveAnswer_def)

text \<open>The input without a choice and without a text, on the example store.\<close>

theorem saveAnswer_requires_answer_witness:
  "sa_answerChoice ex_no_answer = None \<and> sa_essayAnswer ex_no_answer = None
   \<and> saveAnswer ex_db ex_no_answer =
       (Inl (Error ''Either answerChoice or essayAnswer must be provided.''), ex_db)"
proof -
  have a: "sa_answerChoice ex_no_answer = None" by (simp add: ex_no_answer_def)
  have b: "sa_essayAnswer ex_no_answer = None" by (simp add: ex_no_answer_def)
  from saveAnswer_requires_answer [OF a b, of ex_db] a b show ?thesis by simp
qed

subsection \<open>The upsert\<close>

lemma same_key_key_of:
  "same_key inp ua = (key_of ua = (sa_userId inp, sa_quizSessionId inp, sa_questionId inp))"
  by (auto simp: same_key_def key_of_def)

lemma key_of_update [simp]: "key_of (update_userAnswer inp ua) = key_of ua"
  by (simp add: key_of_def update_userAnswer_def)

lemma same_key_update [simp]: "same_key inp (update_userAnswer inp' ua) = same_key inp ua"
  by (simp add: same_key_def update_userAnswer_def)

lemma same_key_create [simp]: "same_key inp (create_userAnswer inp)"
  by (simp add: same_key_def create_userAnswer_def)

lemma unique_keys_filter:
  "unique_keys rows \<Longrightarrow> find (same_key inp) rows = Some row \<Longrightarrow>
   filter (same_key inp) rows = [row]"
proof (induction rows)
  case Nil
  then show ?case by simp
next
  case (Cons r rows)
  show ?case
  proof (cases "same_key inp r")
    case True
    with Cons.prems have "r = row" by simp
    moreover have "filter (same_key inp) rows = []"
    proof (rule ccontr)
      assume "filter (same_key inp) rows \<noteq> []"
      then obtain x where "x \<in> set rows" "same_key inp x"
        by (metis filter_False)
      with True have "key_of r \<in> set (map key_of rows)"
        by (force simp: same_key_key_of)
      with Cons.prems(1) show False by (simp add: unique_keys_def)
    qed
    ultimately show ?thesis using True by simp
  next
    case False
    with Cons show ?thesis by (simp add: unique_keys_def)
  qed
qed


lemma find_None_same_key:
  "find (same_key inp) rows = None \<Longrightarrow> r \<in> set rows \<Longrightarrow> \<not> same_key inp r"
  by (auto simp: find_None_iff)

lemma same_key_cong:
  "sa_userId inp2 = sa_userId inp1 \<Longrightarrow> sa_quizSessionId inp2 = sa_quizSessionId inp1 \<Longrightarrow>
   sa_questionId inp2 = sa_questionId inp1 \<Longrightarrow> same_key inp2 = same_key inp1"
  by (auto simp: same_key_def fun_eq_iff)

text \<open>The update branch: the rows with the key are rewritten in place.\<close>

lemma map_key_of_update:
  "map key_of (map (\<lambda>r. if same_key inp r then update_userAnswer inp' r else r) rows) =
   map key_of rows"
  by (induction rows) simp_all

lemma unique_keys_updated:
  "unique_keys rows \<Longrightarrow>
   unique_keys (map (\<lambda>r. if same_key inp r then update_userAnswer inp' r else r) rows)"
  by (simp only: unique_keys_def map_key_of_update)

lemma filter_same_key_update:
  "filter (same_key inp) (map (\<lambda>r. if same_key inp r then update_userAnswer inp' r else r) rows)
   = map (update_userAnswer inp') (filter (same_key inp) rows)"
  by (induction rows) simp_all

lemma filter_updated:
  "unique_keys rows \<Longrightarrow> find (same_key inp) rows = Some row \<Longrightarrow>
   filter (same_key inp) (map (\<lambda>r. if same_key inp r then update_userAnswer inp' r else r) rows)
   = [update_userAnswer inp' row]"
  by (simp add: filter_same_key_update unique_keys_filter)

lemma find_updated:
  "find (same_key inp) rows = Some row \<Longrightarrow>
   find (same_key inp) (map (\<lambda>r. if same_key inp r then update_userAnswer inp' r else r) rows)
   = Some (update_userAnswer inp' row)"
  by (induction rows) (auto split: if_splits)

lemma update_userAnswer_twice [simp]:
  "update_userAnswer inp (update_userAnswer inp r) = update_userAnswer inp r"
  by (simp add: update_userAnswer_def)

lemma update_create [simp]:
  "update_userAnswer inp (create_userAnswer inp) = create_userAnswer inp"
  by (simp add: update_userAnswer_def create_userAnswer_def)

lemma map_update_twice:
  "map (\<lambda>r. if same_key inp r then update_userAnswer inp r else r)
     (map (\<lambda>r. if same_key inp r then update_userAnswer inp r else r) rows) =
   map (\<lambda>r. if same_key inp r then update_userAnswer inp r else r) rows"
  by (induction rows) simp_all

lemma map_update_not_same_key:
  "\<forall>r\<in>set rows. \<not> same_key inp r \<Longrightarrow>
   map (\<lambda>r. if same_key inp r then update_userAnswer inp r else r) rows = rows"
  by (induction rows) simp_all

text \<open>The create branch: one row is added at the end.\<close>

lemma unique_keys_created:
  assumes "unique_keys rows" and "find (same_key inp) rows = None"
  shows "unique_keys (rows @ [create_userAnswer inp])"
proof -
  have "key_of (create_userAnswer inp) \<notin> set (map key_of rows)"
  proof
    assume "key_of (create_userAnswer inp) \<in> set (map key_of rows)"
    then obtain r where r: "r \<in> set rows" "key_of r = key_of (create_userAnswer inp)"
      by auto
    then have "same_key inp r"
      by (simp add: same_key_key_of key_of_def create_userAnswer_def)
    with find_None_same_key [OF assms(2) r(1)] show False by simp
  qed
  with assms(1) show ?thesis by (simp add: unique_keys_def)
qed

lemma find_created:
  "find (same_key inp) rows = None \<Longrightarrow>
   find (same_key inp) (rows @ [create_userAnswer inp]) = Some (create_userAnswer inp)"
  by (induction rows) (auto split: if_splits)

lemma map_update_created:
  assumes "find (same_key inp) rows = None"
  shows "map (\<lambda>r. if same_key inp r then update_userAnswer inp r else r)
      (rows @ [create_userAnswer inp]) = rows @ [create_userAnswer inp]"
proof -
  from assms have "\<forall>r\<in>set rows. \<not> same_key inp r" by (simp add: find_None_iff)
  then show ?thesis by (simp add: map_update_not_same_key)
qed

text \<open>The three ways a call with a choice or a text ends.\<close>

lemma saveAnswer_update:
  "sa_answerChoice inp \<noteq> None \<or> sa_essayAnswer inp \<noteq> None \<Longrightarrow>
   find (same_key inp) (userAnswers d) = Some row \<Longrightarrow>
   saveAnswer d inp =
     (Inr (update_userAnswer inp row),
      d\<lparr>userAnswers :=
          map (\<lambda>r. if same_key inp r then update_userAnswer inp r else r) (userAnswers d)\<rparr>)"
  by (auto simp: saveAnswer_def upsert_userAnswer_def)

lemma saveAnswer_create:
  "sa_answerChoice inp \<noteq> None \<or> sa_essayAnswer inp \<noteq> None \<Longrightarrow>
   find (same_key inp) (userAnswers d) = None \<Longrightarrow> references_exist d inp \<Longrightarrow>
   saveAnswer d inp =
     (Inr (create_userAnswer inp), d\<lparr>userAnswers := userAnswers d @ [create_userAnswer inp]\<rparr>)"
  by (auto simp: saveAnswer_def upsert_userAnswer_def)

lemma saveAnswer_refused:
  "sa_answerChoice inp \<noteq> None \<or> sa_essayAnswer inp \<noteq> None \<Longrightarrow>
   find (same_key inp) (userAnswers d) = None \<Longrightarrow> \<not> references_exist d inp \<Longrightarrow>
   saveAnswer d inp = (Inl (PrismaClientKnownRequestError ''P2003''), d)"
  by (auto simp: saveAnswer_def upsert_userAnswer_def)

text \<open>
  After a call that is not refused the table has the key, satisfies its unique index, and
  a second call with the same input changes nothing.
\<close>

lemma saveAnswer_accepted:
  assumes unique: "unique_keys (userAnswers d)"
    and valid: "sa_answerChoice inp \<noteq> None \<or> sa_essayAnswer inp \<noteq> None"
    and accepted: "find (same_key inp) (userAnswers d) \<noteq> None \<or> references_exist d inp"
  shows "\<exists>row. find (same_key inp) (userAnswers (snd (saveAnswer d inp))) = Some row"
    and "unique_keys (userAnswers (snd (saveAnswer d inp)))"
    and "map (\<lambda>r. if same_key inp r then update_userAnswer inp r else r)
          (userAnswers (snd (saveAnswer d inp))) = userAnswers (snd (saveAnswer d inp))"
proof -
  show "\<exists>row. find (same_key inp) (userAnswers (snd (saveAnswer d inp))) = Some row"
  proof (cases "find (same_key inp) (userAnswers d)")
    case None
    with accepted have "references_exist d inp" by simp
    from saveAnswer_create [OF valid None this] find_created [OF None] show ?thesis by simp
  next
    case (Some row)
    from saveAnswer_update [OF valid Some] find_updated [OF Some, of inp] show ?thesis by simp
  qed
  show "unique_keys (userAnswers (snd (saveAnswer d inp)))"
  proof (cases "find (same_key inp) (userAnswers d)")
    case None
    with accepted have "references_exist d inp" by simp
    from saveAnswer_create [OF valid None this] unique_keys_created [OF unique None]
    show ?thesis by simp
  next
    case (Some row)
    from saveAnswer_update [OF valid Some] unique_keys_updated [OF unique, of inp inp]
    show ?thesis by simp
  qed
  show "map (\<lambda>r. if same_key inp r then update_userAnswer inp r else r)
      (userAnswers (snd (saveAnswer d inp))) = userAnswers (snd (saveAnswer d inp))"
  proof (cases "find (same_key inp) (userAnswers d)")
    case None
    with accepted have "references_exist d inp" by simp
    from saveAnswer_create [OF valid None this] map_update_created [OF None]
    show ?thesis by simp
  next
    case (Some row)
    from saveAnswer_update [OF valid Some] map_update_twice [of inp "userAnswers d"]
    show ?thesis by simp
  qed
qed

subsection \<open>Claim C4\<close>

text \<open>
  Claim C4 says that for every input with a choice or a text two calls leave exactly one
  row for its key. A user answer refers to a stored user, session, question and package,
  and the upsert throws when it has to insert a row that names one that is not stored. The
  input below names a session 7 that the example store does not have: each call ends in
  the error, the store is as before, and no row has the key.
\<close>

theorem saveAnswer_idempotent_counterexample:
  "sa_answerChoice ex_dangling_answer = Some 1
   \<and> saveAnswer ex_db ex_dangling_answer
       = (Inl (PrismaClientKnownRequestError ''P2003''), ex_db)
   \<and> snd (saveAnswer (snd (saveAnswer ex_db ex_dangling_answer)) ex_dangling_answer) = ex_db
   \<and> filter (same_key ex_dangling_answer) (userAnswers ex_db) = []"
  by code_simp

text \<open>
  Claim C4, as the handler behaves. Let the table satisfy its unique index, let two inputs,
  each with a choice or a text, have the same key (\<open>userId\<close>, \<open>quizSessionId\<close>,
  \<open>questionId\<close>), and let the first either have its key in the table or name a stored
  user, session, question and package. Saving the first and then the first again gives the
  store that saving it once gives. Saving the first and then the second leaves exactly one
  row with the key: the row the second call returns, which holds the choice and the text
  of the second input; the second call adds no row, and the table still satisfies its
  unique index.
\<close>

theorem saveAnswer_idempotent:
  assumes unique: "unique_keys (userAnswers d)"
    and valid1: "sa_answerChoice inp1 \<noteq> None \<or> sa_essayAnswer inp1 \<noteq> None"
    and valid2: "sa_answerChoice inp2 \<noteq> None \<or> sa_essayAnswer inp2 \<noteq> None"
    and key: "sa_userId inp2 = sa_userId inp1" "sa_quizSessionId inp2 = sa_quizSessionId inp1"
      "sa_questionId inp2 = sa_questionId inp1"
    and accepted: "find (same_key inp1) (userAnswers d) \<noteq> None \<or> references_exist d inp1"
    and d1: "d1 = snd (saveAnswer d inp1)"
    and d2: "d2 = snd (saveAnswer d1 inp2)"
  shows "snd (saveAnswer d1 inp1) = d1
    \<and> (\<exists>row. fst (saveAnswer d1 inp2) = Inr row
          \<and> filter (same_key inp1) (userAnswers d2) = [row]
          \<and> ua_answerChoice row = sa_answerChoice inp2
          \<and> ua_essayAnswer row = sa_essayAnswer inp2)
    \<and> length (userAnswers d2) = length (userAnswers d1)
    \<and> unique_keys (userAnswers d2)"
proof -
  from saveAnswer_accepted [OF unique valid1 accepted]
  obtain row1 where row1: "find (same_key inp1) (userAnswers d1) = Some row1"
    and unique1: "unique_keys (userAnswers d1)"
    and fixed: "map (\<lambda>r. if same_key inp1 r then update_userAnswer inp1 r else r)
        (userAnswers d1) = userAnswers d1"
    unfolding d1 by blast
  have same: "same_key inp2 = same_key inp1"
    using key by (rule same_key_cong)
  from row1 have row2: "find (same_key inp2) (userAnswers d1) = Some row1"
    by (simp add: same)
  have again: "snd (saveAnswer d1 inp1) = d1"
    by (simp add: saveAnswer_update [OF valid1 row1] fixed)
  have second: "saveAnswer d1 inp2 =
      (Inr (update_userAnswer inp2 row1),
       d1\<lparr>userAnswers :=
           map (\<lambda>r. if same_key inp2 r then update_userAnswer inp2 r else r) (userAnswers d1)\<rparr>)"
    using valid2 row2 by (rule saveAnswer_update)
  then have rows2: "userAnswers d2 =
      map (\<lambda>r. if same_key inp2 r then update_userAnswer inp2 r else r) (userAnswers d1)"
    by (simp add: d2)
  have one: "filter (same_key inp1) (userAnswers d2) = [update_userAnswer inp2 row1]"
    using filter_updated [OF unique1 row2, of inp2] by (simp add: rows2 same)
  have fields: "ua_answerChoice (update_userAnswer inp2 row1) = sa_answerChoice inp2
      \<and> ua_essayAnswer (update_userAnswer inp2 row1) = sa_essayAnswer inp2"
    by (simp add: update_userAnswer_def)
  have len: "length (userAnswers d2) = length (userAnswers d1)"
    by (simp add: rows2)
  have unique2: "unique_keys (userAnswers d2)"
    unfolding rows2 using unique1 by (rule unique_keys_updated)
  from second have "fst (saveAnswer d1 inp2) = Inr (update_userAnswer inp2 row1)" by simp
  with again one fields len unique2 show ?thesis by blast
qed

text \<open>
  A first essay answer is saved into the store that holds one answer, then saved again,
  then replaced by another text: the table has two rows each time. The user, the session,
  the question and the package of the input are stored.
\<close>

theorem saveAnswer_idempotent_witness:
  "unique_keys (userAnswers ex_db_one_answer)
   \<and> references_exist ex_db_one_answer ex_save_essay
   \<and> userAnswers (snd (saveAnswer ex_db_one_answer ex_save_essay))
       = [ex_choice_answer, create_userAnswer ex_save_essay]
   \<and> snd (saveAnswer (snd (saveAnswer ex_db_one_answer ex_save_essay)) ex_save_essay)
       = snd (saveAnswer ex_db_one_answer ex_save_essay)
   \<and> userAnswers
        (snd (saveAnswer (snd (saveAnswer ex_db_one_answer ex_save_essay)) ex_save_essay_again))
       = [ex_choice_answer, create_userAnswer ex_save_essay_again]
   \<and> unique_keys (userAnswers
        (snd (saveAnswer (snd (saveAnswer ex_db_one_answer ex_save_essay)) ex_save_essay_again)))"
proof -
  have unique: "unique_keys (userAnswers ex_db_one_answer)"
    by code_simp
  have refs: "references_exist ex_db_one_answer ex_save_essay"
    by code_simp
  then have accepted: "find (same_key ex_save_essay) (userAnswers ex_db_one_answer) \<noteq> None
      \<or> references_exist ex_db_one_answer ex_save_essay"
    by simp
  have valid1: "sa_answerChoice ex_save_essay \<noteq> None \<or> sa_essayAnswer ex_save_essay \<noteq> None"
    by (simp add: ex_save_essay_def)
  have valid2: "sa_answerChoice ex_save_essay_again \<noteq> None
      \<or> sa_essayAnswer ex_save_essay_again \<noteq> None"
    by (simp add: ex_save_essay_again_def)
  have key: "sa_userId ex_save_essay_again = sa_userId ex_save_essay"
    "sa_quizSessionId ex_save_essay_again = sa_quizSessionId ex_save_essay"
    "sa_questionId ex_save_essay_again = sa_questionId ex_save_essay"
    by (simp_all add: ex_save_essay_def ex_save_essay_again_def)
  have first: "userAnswers (snd (saveAnswer ex_db_one_answer ex_save_essay))
      = [ex_choice_answer, create_userAnswer ex_save_essay]"
    by code_simp
  have second: "userAnswers
      (snd (saveAnswer (snd (saveAnswer ex_db_one_answer ex_save_essay)) ex_save_essay_again))
      = [ex_choice_answer, create_userAnswer ex_save_essay_again]"
    by code_simp
  from saveAnswer_idempotent [OF unique valid1 valid2 key accepted refl refl]
    unique refs first second
  show ?thesis by blast
qed

subsection \<open>Claim C9\<close>

text \<open>
  Claim C9. When \<^verbatim>\<open>saveAnswer\<close> is called with a valid input whose key a stored row
  has, the row it returns has the choice and the text of the input and the user, package,
  session and question of the stored row. The table keeps its length; at every position
  the row keeps its user, package, session and question; a row with the key gets the
  choice and the text of the input, every other row is unchanged; and no other table
  changes. The \<open>packageId\<close> of the input is not written.
\<close>

theorem saveAnswer_update_frame:
  assumes found: "find (same_key inp) (userAnswers d) = Some row"
    and valid: "sa_answerChoice inp \<noteq> None \<or> sa_essayAnswer inp \<noteq> None"
    and d': "d' = snd (saveAnswer d inp)"
  shows "(\<exists>row'. fst (saveAnswer d inp) = Inr row'
           \<and> ua_answerChoice row' = sa_answerChoice inp
           \<and> ua_essayAnswer row' = sa_essayAnswer inp
           \<and> ua_userId row' = ua_userId row
           \<and> ua_packageId row' = ua_packageId row
           \<and> ua_quizSessionId row' = ua_quizSessionId row
           \<and> ua_questionId row' = ua_questionId row)
    \<and> length (userAnswers d') = length (userAnswers d)
    \<and> (\<forall>i<length (userAnswers d).
          ua_userId (userAnswers d' ! i) = ua_userId (userAnswers d ! i)
          \<and> ua_packageId (userAnswers d' ! i) = ua_packageId (userAnswers d ! i)
          \<and> ua_quizSessionId (userAnswers d' ! i) = ua_quizSessionId (userAnswers d ! i)
          \<and> ua_questionId (userAnswers d' ! i) = ua_questionId (userAnswers d ! i)
          \<and> (if same_key inp (userAnswers d ! i)
             then ua_answerChoice (userAnswers d' ! i) = sa_answerChoice inp
                \<and> ua_essayAnswer (userAnswers d' ! i) = sa_essayAnswer inp
             else userAnswers d' ! i = userAnswers d ! i))
    \<and> d'\<lparr>userAnswers := userAnswers d\<rparr> = d"
proof -
  have run: "saveAnswer d inp =
      (Inr (update_userAnswer inp row),
       d\<lparr>userAnswers :=
           map (\<lambda>r. if same_key inp r then update_userAnswer inp r else r) (userAnswers d)\<rparr>)"
    using valid found by (rule saveAnswer_update)
  have res: "fst (saveAnswer d inp) = Inr (update_userAnswer inp row)"
    by (simp add: run)
  have rows: "userAnswers d' =
      map (\<lambda>r. if same_key inp r then update_userAnswer inp r else r) (userAnswers d)"
    by (simp add: d' run)
  have frame: "d'\<lparr>userAnswers := userAnswers d\<rparr> = d"
    by (simp add: d' run)
  have fields: "ua_answerChoice (update_userAnswer inp r) = sa_answerChoice inp
      \<and> ua_essayAnswer (update_userAnswer inp r) = sa_essayAnswer inp
      \<and> ua_userId (update_userAnswer inp r) = ua_userId r
      \<and> ua_packageId (update_userAnswer inp r) = ua_packageId r
      \<and> ua_quizSessionId (update_userAnswer inp r) = ua_quizSessionId r
      \<and> ua_questionId (update_userAnswer inp r) = ua_questionId r" for r
    by (simp add: update_userAnswer_def)
  have each: "ua_userId (userAnswers d' ! i) = ua_userId (userAnswers d ! i)
      \<and> ua_packageId (userAnswers d' ! i) = ua_packageId (userAnswers d ! i)
      \<and> ua_quizSessionId (userAnswers d' ! i) = ua_quizSessionId (userAnswers d ! i)
      \<and> ua_questionId (userAnswers d' ! i) = ua_questionId (userAnswers d ! i)
      \<and> (if same_key inp (userAnswers d ! i)
         then ua_answerChoice (userAnswers d' ! i) = sa_answerChoice inp
            \<and> ua_essayAnswer (userAnswers d' ! i) = sa_essayAnswer inp
         else userAnswers d' ! i = userAnswers d ! i)"
    if "i < length (userAnswers d)" for i
    using that fields [of "userAnswers d ! i"] by (simp add: rows)
  from res fields [of row] rows frame each show ?thesis
    by (simp only: length_map) blast
qed

text \<open>
  The stored answer to the multiple-choice question was saved under package 1. Saving
  choice 2 for it with package id 2 changes the choice and keeps package 1.
\<close>

theorem saveAnswer_update_frame_witness:
  "find (same_key ex_changed_answer) (userAnswers ex_db) = Some ex_choice_answer
   \<and> sa_packageId ex_changed_answer = 2
   \<and> saveAnswer ex_db ex_changed_answer =
       (Inr (ex_choice_answer\<lparr>ua_answerChoice := Some 2\<rparr>),
        ex_db\<lparr>userAnswers := [ex_choice_answer\<lparr>ua_answerChoice := Some 2\<rparr>, ex_essay_answer]\<rparr>)
   \<and> ua_packageId (ex_choice_answer\<lparr>ua_answerChoice := Some 2\<rparr>) = 1
   \<and> length (userAnswers (snd (saveAnswer ex_db ex_changed_answer))) = length (userAnswers ex_db)"
proof -
  have found: "find (same_key ex_changed_answer) (userAnswers ex_db) = Some ex_choice_answer"
    by code_simp
  have valid: "sa_answerChoice ex_changed_answer \<noteq> None
      \<or> sa_essayAnswer ex_changed_answer \<noteq> None"
    by (simp add: ex_changed_answer_def)
  have run: "saveAnswer ex_db ex_changed_answer =
       (Inr (ex_choice_answer\<lparr>ua_answerChoice := Some 2\<rparr>),
        ex_db\<lparr>userAnswers := [ex_choice_answer\<lparr>ua_answerChoice := Some 2\<rparr>, ex_essay_answer]\<rparr>)"
    by code_simp
  have pkg: "sa_packageId ex_changed_answer = 2
      \<and> ua_packageId (ex_choice_answer\<lparr>ua_answerChoice := Some 2\<rparr>) = 1"
    by code_simp
  from saveAnswer_update_frame [OF found valid refl] found run pkg show ?thesis
    by blast
qed

section \<open>Sessions and missing rows\<close>

lemma load_sessionDetails_session:
  "load_sessionDetails d sid = Some details \<Longrightarrow>
   findUnique_quizSession d sid = Some (sd_session details)"
  by (auto simp: load_sessionDetails_def split: option.splits)

lemma getSessionDetails_absent:
  "findUnique_quizSession d sid = None \<Longrightarrow> getSessionDetails d c sid = None"
  by (simp add: getSessionDetails_def load_sessionDetails_def)

subsection \<open>Claim C6\<close>

text \<open>
  Claim C6. \<^verbatim>\<open>getSessionDetails\<close> returns a session only if the session with the
  requested id is stored and the requester is its owner or has the role \<open>admin\<close>. For a
  stored session that another user owns it returns null to a requester who is not an
  administrator, as it does when no session has the requested id.
\<close>

theorem getSessionDetails_access:
  "(getSessionDetails d c sid = Some details \<longrightarrow>
      findUnique_quizSession d sid = Some (sd_session details)
      \<and> (qs_userId (sd_session details) = ctx_userId c \<or> ctx_role c = ''admin''))
   \<and> (findUnique_quizSession d sid = Some s
        \<and> qs_userId s \<noteq> ctx_userId c \<and> ctx_role c \<noteq> ''admin'' \<longrightarrow>
      getSessionDetails d c sid = None)
   \<and> (findUnique_quizSession d sid = None \<longrightarrow> getSessionDetails d c sid = None)"
proof -
  have a: "findUnique_quizSession d sid = Some (sd_session details)
      \<and> (qs_userId (sd_session details) = ctx_userId c \<or> ctx_role c = ''admin'')"
    if "getSessionDetails d c sid = Some details"
  proof -
    from that have "load_sessionDetails d sid = Some details"
      and "\<not> (qs_userId (sd_session details) \<noteq> ctx_userId c \<and> ctx_role c \<noteq> ''admin'')"
      by (auto simp: getSessionDetails_def split: option.splits if_splits)
    with load_sessionDetails_session show ?thesis by blast
  qed
  have b: "getSessionDetails d c sid = None"
    if "findUnique_quizSession d sid = Some s" "qs_userId s \<noteq> ctx_userId c"
      "ctx_role c \<noteq> ''admin''"
  proof (cases "load_sessionDetails d sid")
    case None
    then show ?thesis by (simp add: getSessionDetails_def)
  next
    case (Some details)
    from load_sessionDetails_session [OF this] that(1) have "sd_session details = s" by simp
    with Some that show ?thesis by (simp add: getSessionDetails_def)
  qed
  from a b getSessionDetails_absent show ?thesis by blast
qed

text \<open>
  User \<open>u2\<close> asks for session 1 of user \<open>u1\<close>, and for a session 9 that does not exist:
  null both times. The owner and the administrator get the session.
\<close>

theorem getSessionDetails_access_witness:
  "findUnique_quizSession ex_db 1 = Some ex_session
   \<and> qs_userId ex_session \<noteq> ctx_userId ex_other_user
   \<and> ctx_role ex_other_user \<noteq> ''admin''
   \<and> getSessionDetails ex_db ex_other_user 1 = None
   \<and> findUnique_quizSession ex_db 9 = None
   \<and> getSessionDetails ex_db ex_other_user 9 = None
   \<and> getSessionDetails ex_db ex_user 1
      = Some \<lparr>sd_session = ex_session, sd_subtest = ex_subtest1, sd_TOend = 1000,
               sd_userAnswers = [ex_choice_answer, ex_essay_answer]\<rparr>
   \<and> getSessionDetails ex_db ex_admin 1 = getSessionDetails ex_db ex_user 1"
proof -
  have s: "findUnique_quizSession ex_db 1 = Some ex_session"
    by code_simp
  have other: "qs_userId ex_session \<noteq> ctx_userId ex_other_user"
    "ctx_role ex_other_user \<noteq> ''admin''"
    by code_simp+
  have absent: "findUnique_quizSession ex_db 9 = None"
    by code_simp
  have own: "getSessionDetails ex_db ex_user 1
      = Some \<lparr>sd_session = ex_session, sd_subtest = ex_subtest1, sd_TOend = 1000,
               sd_userAnswers = [ex_choice_answer, ex_essay_answer]\<rparr>"
    by code_simp
  have admin: "getSessionDetails ex_db ex_admin 1 = getSessionDetails ex_db ex_user 1"
    by code_simp
  from getSessionDetails_access [of ex_db ex_other_user 1 _ ex_session]
    getSessionDetails_access [of ex_db ex_other_user 9]
    s other absent own admin
  show ?thesis by simp
qed

subsection \<open>Claim C7\<close>

text \<open>
  Claim C7 says that every lookup of the router that finds nothing returns null and raises
  no error, the lookup of a package by \<^verbatim>\<open>getPackageWithSubtest\<close> among them. The example
  store has no package with id 9, and the call for it ends in the error
  \<open>Package not found\<close>.
\<close>

theorem getPackageWithSubtest_not_found_counterexample:
  "findUnique_package ex_db 9 = None
   \<and> getPackageWithSubtest ex_db ex_user 9 ex_clock = Inl (Error ''Package not found'')"
  by code_simp

lemma find_None_no_row: "\<forall>x\<in>set xs. \<not> P x \<Longrightarrow> find P xs = None"
  by (simp add: find_None_iff)

lemma sessions_of_empty:
  "\<forall>s\<in>set (quizSessions d). \<not> (qs_subtestId s = stid \<and> qs_userId s = uid) \<Longrightarrow>
   sessions_of d uid stid = []"
  by (simp add: sessions_of_def List.map_filter_simps filter_False)

text \<open>
  Claim C7, as the handlers behave. \<^verbatim>\<open>getSession\<close> returns null when the user has no
  session for the subtest, \<^verbatim>\<open>getSessionDetails\<close> returns null when no session has the
  id, and \<^verbatim>\<open>getQuestionsBySubtest\<close> returns null when the user it looks up has no
  session for the subtest; \<^verbatim>\<open>getPackageWithSubtest\<close> raises the error
  \<open>Package not found\<close> when no package has the id.
\<close>

theorem not_found_results:
  "((\<forall>p\<in>set (packages d). pkg_id p \<noteq> pid) \<longrightarrow>
      getPackageWithSubtest d c pid now = Inl (Error ''Package not found''))
   \<and> ((\<forall>s\<in>set (quizSessions d). \<not> (qs_userId s = uid \<and> qs_subtestId s = stid)) \<longrightarrow>
      getSession d uid stid = None)
   \<and> ((\<forall>s\<in>set (quizSessions d). qs_id s \<noteq> sid) \<longrightarrow> getSessionDetails d c sid = None)
   \<and> ((\<forall>s\<in>set (quizSessions d).
          \<not> (qs_subtestId s = gq_subtestId inp \<and> qs_userId s = session_userId c inp)) \<longrightarrow>
      getQuestionsBySubtest d c inp now1 now2 = Null)"
proof -
  have "getPackageWithSubtest d c pid now = Inl (Error ''Package not found'')"
    if "\<forall>p\<in>set (packages d). pkg_id p \<noteq> pid"
    using find_None_no_row [of "packages d" "\<lambda>p. pkg_id p = pid"] that
    by (simp add: getPackageWithSubtest_def load_packageData_def findUnique_package_def)
  moreover have "getSession d uid stid = None"
    if "\<forall>s\<in>set (quizSessions d). \<not> (qs_userId s = uid \<and> qs_subtestId s = stid)"
    using that by (simp add: getSession_def find_None_iff)
  moreover have "getSessionDetails d c sid = None"
    if "\<forall>s\<in>set (quizSessions d). qs_id s \<noteq> sid"
    using that by (simp add: getSessionDetails_absent findUnique_quizSession_def find_None_iff)
  moreover have "getQuestionsBySubtest d c inp now1 now2 = Null"
    if "\<forall>s\<in>set (quizSessions d).
          \<not> (qs_subtestId s = gq_subtestId inp \<and> qs_userId s = session_userId c inp)"
    using sessions_of_empty [OF that]
    by (simp add: getQuestionsBySubtest_def findFirst_session_def)
  ultimately show ?thesis by blast
qed

text \<open>
  In the example store: package 9 and session 9 do not exist, and user \<open>u2\<close> has no
  session for the first subtest.
\<close>

theorem not_found_results_witness:
  "list_all (\<lambda>p. pkg_id p \<noteq> 9) (packages ex_db)
   \<and> getPackageWithSubtest ex_db ex_user 9 ex_clock = Inl (Error ''Package not found'')
   \<and> list_all (\<lambda>s. \<not> (qs_userId s = ''u2'' \<and> qs_subtestId s = 1)) (quizSessions ex_db)
   \<and> getSession ex_db ''u2'' 1 = None
   \<and> list_all (\<lambda>s. qs_id s \<noteq> 9) (quizSessions ex_db)
   \<and> getSessionDetails ex_db ex_user 9 = None
   \<and> list_all (\<lambda>s. \<not> (qs_subtestId s = gq_subtestId ex_questions_input
          \<and> qs_userId s = session_userId ex_other_user ex_questions_input))
        (quizSessions ex_db)
   \<and> getQuestionsBySubtest ex_db ex_other_user ex_questions_input 500 500 = Null"
proof -
  have a: "list_all (\<lambda>p. pkg_id p \<noteq> 9) (packages ex_db)"
    by code_simp
  have b: "list_all (\<lambda>s. \<not> (qs_userId s = ''u2'' \<and> qs_subtestId s = 1)) (quizSessions ex_db)"
    by code_simp
  have c: "list_all (\<lambda>s. qs_id s \<noteq> 9) (quizSessions ex_db)"
    by code_simp
  have e: "list_all (\<lambda>s. \<not> (qs_subtestId s = gq_subtestId ex_questions_input
          \<and> qs_userId s = session_userId ex_other_user ex_questions_input))
        (quizSessions ex_db)"
    by code_simp
  from not_found_results [of ex_db 9 ex_user ex_clock "''u2''" 1 9 ex_questions_input 500 500]
    not_found_results [of ex_db 9 ex_other_user ex_clock "''u2''" 1 9 ex_questions_input 500 500]
    a b c e
  show ?thesis by (simp add: list_all_iff)
qed

section \<open>The announcement\<close>

lemma upsertAnnouncement_existing:
  "1 \<in> set (map an_id (announcements d)) \<Longrightarrow>
   map an_id (announcements (snd (upsertAnnouncement d new_id inp))) =
   map an_id (announcements d)"
proof -
  assume "1 \<in> set (map an_id (announcements d))"
  then obtain a where "a \<in> set (announcements d)" "an_id a = 1" by auto
  then have "find (\<lambda>a. an_id a = 1) (announcements d) \<noteq> None"
    by (auto simp: find_None_iff)
  then obtain row where "find (\<lambda>a. an_id a = 1) (announcements d) = Some row" by blast
  moreover have "map an_id (map (\<lambda>a. if an_id a = 1 then update_announcement inp a else a) rows)
      = map an_id rows" for rows
    by (induction rows) (simp_all add: update_announcement_def)
  ultimately show ?thesis by (simp add: upsertAnnouncement_def)
qed

lemma upsertAnnouncement_missing:
  "1 \<notin> set (map an_id (announcements d)) \<Longrightarrow>
   map an_id (announcements (snd (upsertAnnouncement d new_id inp))) =
   map an_id (announcements d) @ [new_id]"
proof -
  assume "1 \<notin> set (map an_id (announcements d))"
  then have "find (\<lambda>a. an_id a = 1) (announcements d) = None"
    by (auto simp: find_None_iff)
  then show ?thesis by (simp add: upsertAnnouncement_def create_announcement_def)
qed

lemma upsertAnnouncement_calls_existing:
  "1 \<in> set (map an_id (announcements d)) \<Longrightarrow>
   map an_id (announcements (upsertAnnouncement_calls d calls)) = map an_id (announcements d)"
proof (induction calls arbitrary: d)
  case Nil
  show ?case by simp
next
  case (Cons call calls)
  let ?d = "snd (upsertAnnouncement d (fst call) (snd call))"
  from Cons.prems have same: "map an_id (announcements ?d) = map an_id (announcements d)"
    by (rule upsertAnnouncement_existing)
  with Cons.prems have "1 \<in> set (map an_id (announcements ?d))" by simp
  from Cons.IH [OF this] same show ?case by simp
qed

subsection \<open>Claim C8\<close>

text \<open>
  Claim C8 says that from any state of the store at most one announcement ever exists.
  In a store whose only announcement has id 2 no row has id 1, so each call creates a row,
  with the id the table generates: after the two calls of \<open>ex_calls\<close> there are three
  announcements. In a store that holds the announcements 1 and 2 every call updates the
  first, and there are two announcements before and after.
\<close>

theorem upsertAnnouncement_singleton_counterexample:
  "map an_id (announcements ex_db_announcement_2) = [2]
   \<and> map an_id (announcements (upsertAnnouncement_calls ex_db_announcement_2 ex_calls))
      = [2, 3, 4]
   \<and> map an_id (announcements (upsertAnnouncement_calls ex_db_announcements_1_2 ex_calls))
      = [1, 2]"
  by code_simp

text \<open>
  Claim C8, as the handler behaves. When an announcement with id 1 exists, every sequence
  of calls updates in place: the rows keep their number, order and ids; so a table that
  holds exactly the announcement 1 holds exactly one row after every sequence of calls.
  From an empty table, when the row the first call creates gets the id 1, the table holds
  exactly the announcement 1 after every sequence of calls that follows. When no
  announcement has id 1, a call adds one row, with the generated id.
\<close>

theorem upsertAnnouncement_singleton:
  "(1 \<in> set (map an_id (announcements d)) \<longrightarrow>
      map an_id (announcements (upsertAnnouncement_calls d calls)) = map an_id (announcements d))
   \<and> (map an_id (announcements d) = [1] \<longrightarrow>
      length (announcements (upsertAnnouncement_calls d calls)) = 1)
   \<and> (announcements d = [] \<longrightarrow>
      map an_id (announcements (upsertAnnouncement_calls d ((1, inp) # calls))) = [1])
   \<and> (1 \<notin> set (map an_id (announcements d)) \<longrightarrow>
      map an_id (announcements (snd (upsertAnnouncement d new_id inp)))
        = map an_id (announcements d) @ [new_id])"
proof -
  have one: "length (announcements (upsertAnnouncement_calls d calls)) = 1"
    if "map an_id (announcements d) = [1]"
  proof -
    from that have "1 \<in> set (map an_id (announcements d))" by simp
    from upsertAnnouncement_calls_existing [OF this, of calls] that
    have "map an_id (announcements (upsertAnnouncement_calls d calls)) = [1]" by simp
    then have "length (map an_id (announcements (upsertAnnouncement_calls d calls))) = 1"
      by simp
    then show ?thesis by simp
  qed
  have empty: "map an_id (announcements (upsertAnnouncement_calls d ((1, inp) # calls))) = [1]"
    if "announcements d = []"
  proof -
    let ?d = "snd (upsertAnnouncement d 1 inp)"
    from that have first: "map an_id (announcements ?d) = [1]"
      by (simp add: upsertAnnouncement_missing)
    then have "1 \<in> set (map an_id (announcements ?d))" by simp
    from upsertAnnouncement_calls_existing [OF this, of calls] first show ?thesis by simp
  qed
  from one empty upsertAnnouncement_calls_existing upsertAnnouncement_missing
  show ?thesis by blast
qed

text \<open>
  Two calls on the store that holds the announcement 1 leave one row, with the new title
  and url and the old content; a first call that creates the row with id 1 in the empty
  store and two more calls leave one row.
\<close>

theorem upsertAnnouncement_singleton_witness:
  "map an_id (announcements ex_db_announcement_1) = [1]
   \<and> map an_id (announcements (upsertAnnouncement_calls ex_db_announcement_1 ex_calls)) = [1]
   \<and> announcements (upsertAnnouncement_calls ex_db_announcement_1 ex_calls)
      = [\<lparr>an_id = 1, an_title = Some ''News'', an_content = Some ''Tryout on Monday'',
          an_url = Some ''/news''\<rparr>]
   \<and> announcements empty_db = []
   \<and> map an_id (announcements (upsertAnnouncement_calls empty_db ((1, ex_news) # ex_calls)))
      = [1]"
proof -
  have a: "map an_id (announcements ex_db_announcement_1) = [1]"
    by code_simp
  have b: "announcements empty_db = []"
    by code_simp
  have c: "announcements (upsertAnnouncement_calls ex_db_announcement_1 ex_calls)
      = [\<lparr>an_id = 1, an_title = Some ''News'', an_content = Some ''Tryout on Monday'',
          an_url = Some ''/news''\<rparr>]"
    by code_simp
  from upsertAnnouncement_singleton [of ex_db_announcement_1 ex_calls]
    upsertAnnouncement_singleton [of empty_db ex_calls ex_news]
    a b c
  show ?thesis by simp
qed

end
